theory Spec2Isabelle
  imports Main
begin

section \<open>JavaScript values\<close>

text \<open>
  The widths handled by \<^verbatim>\<open>autosizes.js\<close> are JavaScript values: an element's
  \<^verbatim>\<open>offsetWidth\<close> is an integer, a node without layout box (the document) reads
  \<^verbatim>\<open>undefined\<close>, an optional argument that is not passed is \<^verbatim>\<open>undefined\<close>, and a
  listener may store \<^verbatim>\<open>NaN\<close> in \<^verbatim>\<open>detail.width\<close>. Numbers are restricted to
  integers; fractional widths are outside the model.
\<close>

datatype jsval = Undefined | NaN | Num int

text \<open>Truthiness, as tested by \<^verbatim>\<open>if (width)\<close>, \<^verbatim>\<open>!x\<close> and \<^verbatim>\<open>a || b\<close>.\<close>

fun truthy :: "jsval \<Rightarrow> bool" where
  "truthy (Num n) = (n \<noteq> 0)"
| "truthy NaN = False"
| "truthy Undefined = False"

text \<open>\<^verbatim>\<open>a || b\<close>\<close>

definition js_or :: "jsval \<Rightarrow> jsval \<Rightarrow> jsval" where
  "js_or a b = (if truthy a then a else b)"

text \<open>\<^verbatim>\<open>a < b\<close>: both operands are converted to numbers, \<^verbatim>\<open>undefined\<close> becomes
  \<^verbatim>\<open>NaN\<close>, and a comparison with \<^verbatim>\<open>NaN\<close> is false.\<close>

fun js_lt :: "jsval \<Rightarrow> jsval \<Rightarrow> bool" where
  "js_lt (Num a) (Num b) = (a < b)"
| "js_lt _ _ = False"

text \<open>\<^verbatim>\<open>a !== b\<close>: \<^verbatim>\<open>NaN\<close> differs from everything, itself included.\<close>

fun strict_neq :: "jsval \<Rightarrow> jsval \<Rightarrow> bool" where
  "strict_neq (Num a) (Num b) = (a \<noteq> b)"
| "strict_neq Undefined Undefined = False"
| "strict_neq _ _ = True"

text \<open>Decimal digits of a natural number, and the string conversion that a template
  literal \<^verbatim>\<open>`${width}px`\<close> applies to its argument.\<close>

definition digit_char :: "nat \<Rightarrow> char" where
  "digit_char d =
     (if d = 0 then CHR ''0'' else if d = 1 then CHR ''1'' else if d = 2 then CHR ''2''
      else if d = 3 then CHR ''3'' else if d = 4 then CHR ''4'' else if d = 5 then CHR ''5''
      else if d = 6 then CHR ''6'' else if d = 7 then CHR ''7'' else if d = 8 then CHR ''8''
      else CHR ''9'')"

fun show_nat :: "nat \<Rightarrow> string" where
  "show_nat n = (if n < 10 then [digit_char n] else show_nat (n div 10) @ [digit_char (n mod 10)])"

declare show_nat.simps [simp del]

definition show_int :: "int \<Rightarrow> string" where
  "show_int i = (if i < 0 then CHR ''-'' # show_nat (nat (- i)) else show_nat (nat i))"

fun to_string :: "jsval \<Rightarrow> string" where
  "to_string Undefined = ''undefined''"
| "to_string NaN = ''NaN''"
| "to_string (Num n) = show_int n"


text \<open>Reading decimal digits back, to say what the digits written denote: the value of
  a digit is its place among the ten digits.\<close>

definition digit_val :: "char \<Rightarrow> nat" where
  "digit_val k = length (takeWhile (\<lambda>x. x \<noteq> k) ''0123456789'')"

definition read_nat :: "string \<Rightarrow> nat" where
  "read_nat s = foldl (\<lambda>a c. 10 * a + digit_val c) 0 s"

section \<open>Configuration\<close>

record config =
  targetElementClass :: string
  processedElementClass :: string
  sizesAttr :: string
  minSize :: int
  init :: bool
  resizeDebounce :: int

definition defaults :: config where
  "defaults = \<lparr> targetElementClass = ''autosizes'', processedElementClass = ''autosized'',
     sizesAttr = ''sizes'', minSize = 40, init = True, resizeDebounce = 99 \<rparr>"

text \<open>\<^verbatim>\<open>window.autoSizesConfig\<close>: an object that may define any of the keys.\<close>

record user_config =
  u_targetElementClass :: "string option"
  u_processedElementClass :: "string option"
  u_sizesAttr :: "string option"
  u_minSize :: "int option"
  u_init :: "bool option"
  u_resizeDebounce :: "int option"

definition no_overrides :: user_config where
  "no_overrides = \<lparr> u_targetElementClass = None, u_processedElementClass = None,
     u_sizesAttr = None, u_minSize = None, u_init = None, u_resizeDebounce = None \<rparr>"

text \<open>\<^verbatim>\<open>config = { ...defaults, ...userConfig }\<close>\<close>

definition initConfig :: "user_config \<Rightarrow> config" where
  "initConfig u = \<lparr>
     targetElementClass = (case u_targetElementClass u of Some v \<Rightarrow> v | None \<Rightarrow> targetElementClass defaults),
     processedElementClass = (case u_processedElementClass u of Some v \<Rightarrow> v | None \<Rightarrow> processedElementClass defaults),
     sizesAttr = (case u_sizesAttr u of Some v \<Rightarrow> v | None \<Rightarrow> sizesAttr defaults),
     minSize = (case u_minSize u of Some v \<Rightarrow> v | None \<Rightarrow> minSize defaults),
     init = (case u_init u of Some v \<Rightarrow> v | None \<Rightarrow> init defaults),
     resizeDebounce = (case u_resizeDebounce u of Some v \<Rightarrow> v | None \<Rightarrow> resizeDebounce defaults) \<rparr>"

section \<open>The document\<close>

text \<open>
  An ancestor is a node with a rendered width and a parent. The parent chain of a DOM
  tree is finite; the datatype makes it so.
\<close>

datatype node = Node (node_offsetWidth: jsval) (node_parentNode: "node option")

text \<open>
  A tracked element: its layout width, its parent, its attributes, its class list and
  the expando \<^verbatim>\<open>_autosizesWidth\<close> (\<^verbatim>\<open>undefined\<close> until the first commit).
\<close>

record element =
  offsetWidth :: jsval
  parentNode :: "node option"
  attributes :: "string \<rightharpoonup> string"
  classList :: "string list"
  autosizesWidth :: jsval

section \<open>Width resolver\<close>

text \<open>
  \<^verbatim>\<open>
  function getWidth(elem, parent, width) {
    width = width || elem.offsetWidth;
    while (width < config.minSize && parent && !elem._autosizesWidth) {
      width = parent.offsetWidth;
      parent = parent.parentNode;
    }
    return width;
  }
  \<close>
\<close>

fun getWidth_loop :: "config \<Rightarrow> element \<Rightarrow> node option \<Rightarrow> jsval \<Rightarrow> jsval" where
  "getWidth_loop cfg elem None width = width"
| "getWidth_loop cfg elem (Some (Node pw pp)) width =
     (if js_lt width (Num (minSize cfg)) \<and> \<not> truthy (autosizesWidth elem)
      then getWidth_loop cfg elem pp pw
      else width)"

definition getWidth :: "config \<Rightarrow> element \<Rightarrow> node option \<Rightarrow> jsval \<Rightarrow> jsval" where
  "getWidth cfg elem parent width = getWidth_loop cfg elem parent (js_or width (offsetWidth elem))"

section \<open>Frame batcher\<close>

text \<open>
  \<^verbatim>\<open>
  const rAF = (() => {
    let running = false;
    let waiting = false;
    const queue = [];
    const run = () => {
      running = true;
      waiting = false;
      while (queue.length) {
        const fn = queue.shift();
        fn();
      }
      running = false;
    };
    return (fn) => {
      if (running) {
        fn();
      } else {
        queue.push(fn);
        if (!waiting) {
          waiting = true;
          requestAnimationFrame(run);
        }
      }
    };
  })();
  \<close>
  A scheduled function is a closure. Its body is a sequence of primitive actions on the
  page (\<open>Act\<close>) and of calls to \<^verbatim>\<open>rAF\<close> with another closure (\<open>Raf\<close>), which is how
  an operation comes to be scheduled while a batch is executing. Closures return
  normally: the source has no \<^verbatim>\<open>throw\<close> and no \<^verbatim>\<open>try\<close>.
\<close>

datatype 'a fn = Done | Act 'a "'a fn" | Raf "'a fn" "'a fn"

text \<open>
  The closure variables \<^verbatim>\<open>running\<close>, \<^verbatim>\<open>waiting\<close> and \<^verbatim>\<open>queue\<close>, the number of
  \<^verbatim>\<open>requestAnimationFrame(run)\<close> callbacks the platform still owes, and the state
  the actions work on.
\<close>

record ('a, 's) batcher =
  running :: bool
  waiting :: bool
  queue :: "'a fn list"
  frames :: nat
  store :: 's

text \<open>\<open>rAF exec fn\<close> is the exported function; \<open>call exec fn\<close> is the call \<^verbatim>\<open>fn()\<close>,
  with \<open>exec\<close> interpreting the primitive actions.\<close>

fun rAF :: "('a \<Rightarrow> 's \<Rightarrow> 's) \<Rightarrow> 'a fn \<Rightarrow> ('a, 's) batcher \<Rightarrow> ('a, 's) batcher"
and call :: "('a \<Rightarrow> 's \<Rightarrow> 's) \<Rightarrow> 'a fn \<Rightarrow> ('a, 's) batcher \<Rightarrow> ('a, 's) batcher" where
  "rAF exec f b =
     (if running b then call exec f b
      else (let b1 = b\<lparr>queue := queue b @ [f]\<rparr>
            in if \<not> waiting b1 then b1\<lparr>waiting := True, frames := frames b1 + 1\<rparr> else b1))"
| "call exec Done b = b"
| "call exec (Act a k) b = call exec k (b\<lparr>store := exec a (store b)\<rparr>)"
| "call exec (Raf f k) b = call exec k (rAF exec f b)"

definition qsize :: "('a, 's) batcher \<Rightarrow> nat" where
  "qsize b = sum_list (map (\<lambda>f. Suc (size f)) (queue b))"

text \<open>The loop \<^verbatim>\<open>while (queue.length) { const fn = queue.shift(); fn(); }\<close>. It ends in
  every state: what a closure can push is smaller than the closure itself.\<close>

function drain :: "('a \<Rightarrow> 's \<Rightarrow> 's) \<Rightarrow> ('a, 's) batcher \<Rightarrow> ('a, 's) batcher" where
  "drain exec b =
     (case queue b of
        [] \<Rightarrow> b
      | fn # rest \<Rightarrow> drain exec (call exec fn (b\<lparr>queue := rest\<rparr>)))"
  by pat_completeness auto
termination
proof (relation "measure (\<lambda>(exec, b). qsize b)")
  show "wf (measure (\<lambda>(exec, b). qsize b))" by simp
next
  fix exec :: "'a \<Rightarrow> 's \<Rightarrow> 's" and b :: "('a, 's) batcher" and fn rest
  assume q: "queue b = fn # rest"
  have bound: "qsize (rAF ex f c) \<le> qsize c + Suc (size f)"
              "qsize (call ex f c) \<le> qsize c + size f"
    for ex :: "'a \<Rightarrow> 's \<Rightarrow> 's" and f c
    by (induction ex f c and ex f c rule: rAF_call.induct) (auto simp: qsize_def Let_def)
  have "qsize (call exec fn (b\<lparr>queue := rest\<rparr>)) \<le> qsize (b\<lparr>queue := rest\<rparr>) + size fn"
    by (rule bound)
  also have "\<dots> < qsize b" using q by (simp add: qsize_def)
  finally show "((exec, call exec fn (b\<lparr>queue := rest\<rparr>)), (exec, b)) \<in> measure (\<lambda>(exec, b). qsize b)"
    by simp
qed

declare drain.simps [simp del]

text \<open>The frame callback \<^verbatim>\<open>run\<close>, and the platform calling one owed callback.\<close>

definition run :: "('a \<Rightarrow> 's \<Rightarrow> 's) \<Rightarrow> ('a, 's) batcher \<Rightarrow> ('a, 's) batcher" where
  "run exec b = (drain exec (b\<lparr>running := True, waiting := False\<rparr>))\<lparr>running := False\<rparr>"

definition frame :: "('a \<Rightarrow> 's \<Rightarrow> 's) \<Rightarrow> ('a, 's) batcher \<Rightarrow> ('a, 's) batcher" where
  "frame exec b = (if frames b = 0 then b else run exec (b\<lparr>frames := frames b - 1\<rparr>))"

text \<open>A batcher on which nothing is pending.\<close>

definition idle :: "'s \<Rightarrow> ('a, 's) batcher" where
  "idle d = \<lparr>running = False, waiting = False, queue = [], frames = 0, store = d\<rparr>"

text \<open>The actions a closure performs when it is called while the batch runs, in order.\<close>

fun actions :: "'a fn \<Rightarrow> 'a list" where
  "actions Done = []"
| "actions (Act a k) = a # actions k"
| "actions (Raf f k) = actions f @ actions k"

section \<open>Events and page effects\<close>

text \<open>
  The page is the tracked elements, by identity, and the trace of what was done to it:
  attribute writes, class additions and dispatched events.
\<close>

datatype detail = BeforeDetail jsval bool | AfterDetail jsval string

datatype effect =
    SetAttribute nat string string
  | ClassListAdd nat string
  | DispatchEvent nat string detail

record dom =
  elems :: "nat \<Rightarrow> element"
  log :: "effect list"

text \<open>
  The listeners of \<^verbatim>\<open>beforeSizesUpdate\<close>, taken together: from the target and the
  detail \<^verbatim>\<open>{width, dataAttr}\<close> to \<^verbatim>\<open>detail.width\<close> and \<^verbatim>\<open>defaultPrevented\<close>
  when \<^verbatim>\<open>dispatchEvent\<close> returns. Listeners that change the page themselves are
  outside the model.
\<close>

type_synonym listener = "nat \<Rightarrow> jsval \<Rightarrow> bool \<Rightarrow> jsval \<times> bool"

definition triggerEvent :: "nat \<Rightarrow> string \<Rightarrow> detail \<Rightarrow> dom \<Rightarrow> dom" where
  "triggerEvent e name dt d = d\<lparr>log := log d @ [DispatchEvent e name dt]\<rparr>"

text \<open>
  On an HTML element, \<^verbatim>\<open>getAttribute\<close> and \<^verbatim>\<open>setAttribute\<close> convert the name they
  are given to ASCII lower case, and the attributes of the element are kept under
  lower-case names.
\<close>

definition ascii_lower :: "char \<Rightarrow> char" where
  "ascii_lower c =
     (case map_of (zip ''ABCDEFGHIJKLMNOPQRSTUVWXYZ'' ''abcdefghijklmnopqrstuvwxyz'') c of
        Some l \<Rightarrow> l
      | None \<Rightarrow> c)"

definition lower_case :: "string \<Rightarrow> string" where
  "lower_case name = map ascii_lower name"

text \<open>\<^verbatim>\<open>elem.getAttribute(name)\<close>; \<open>None\<close> is \<^verbatim>\<open>null\<close>.\<close>

definition getAttribute :: "element \<Rightarrow> string \<Rightarrow> string option" where
  "getAttribute elem name = attributes elem (lower_case name)"

text \<open>\<^verbatim>\<open>elem.setAttribute(name, v)\<close> and \<^verbatim>\<open>elem.classList.add(c)\<close>; the names and
  tokens are taken to be ones the platform accepts. The trace records the attribute
  that was written.\<close>

definition setAttribute :: "nat \<Rightarrow> string \<Rightarrow> string \<Rightarrow> dom \<Rightarrow> dom" where
  "setAttribute e name v d =
     d\<lparr>elems := (elems d)(e := (elems d e)\<lparr>attributes :=
          (attributes (elems d e))(lower_case name \<mapsto> v)\<rparr>),
       log := log d @ [SetAttribute e (lower_case name) v]\<rparr>"

definition classList_add :: "nat \<Rightarrow> string \<Rightarrow> dom \<Rightarrow> dom" where
  "classList_add e c d =
     d\<lparr>elems := (elems d)(e := (elems d e)\<lparr>classList :=
          (if c \<in> set (classList (elems d e)) then classList (elems d e)
           else classList (elems d e) @ [c])\<rparr>),
       log := log d @ [ClassListAdd e c]\<rparr>"

section \<open>Attribute names\<close>

text \<open>\<^verbatim>\<open>attr.includes('-') && attr !== 'sizes'\<close>\<close>

definition hasPrefix :: "string \<Rightarrow> bool" where
  "hasPrefix attr = (CHR ''-'' \<in> set attr \<and> attr \<noteq> ''sizes'')"

text \<open>\<^verbatim>\<open>attr.split(c)\<close>\<close>

fun split :: "char \<Rightarrow> string \<Rightarrow> string list" where
  "split c [] = [[]]"
| "split c (x # xs) =
     (if x = c then [] # split c xs
      else (case split c xs of p # ps \<Rightarrow> (x # p) # ps | [] \<Rightarrow> [[x]]))"

text \<open>\<^verbatim>\<open>if (hasPrefix(attr)) { const parts = attr.split('-'); return parts[parts.length - 1]; }
  return attr;\<close>\<close>

definition getBaseAttr :: "string \<Rightarrow> string" where
  "getBaseAttr attr = (if hasPrefix attr then last (split (CHR ''-'') attr) else attr)"

section \<open>Update coordinator\<close>

text \<open>\<^verbatim>\<open>const value = elem.getAttribute(config.sizesAttr); return value === 'auto';\<close>\<close>

definition hasSizesAuto :: "config \<Rightarrow> element \<Rightarrow> bool" where
  "hasSizesAuto cfg elem = (getAttribute elem (sizesAttr cfg) = Some ''auto'')"

definition setSizesAttr :: "config \<Rightarrow> nat \<Rightarrow> string \<Rightarrow> dom \<Rightarrow> dom" where
  "setSizesAttr cfg e sizesValue d =
     (let d1 = setAttribute e (sizesAttr cfg) sizesValue d
      in if hasPrefix (sizesAttr cfg)
         then setAttribute e (getBaseAttr (sizesAttr cfg)) sizesValue d1
         else d1)"

text \<open>
  The function that \<^verbatim>\<open>sizeElement\<close> wraps with \<^verbatim>\<open>rAFIt\<close>:
  \<^verbatim>\<open>
    elem._autosizesWidth = width;
    const widthPx = `${width}px`;
    if (hasSizesAuto(elem)) { setSizesAttr(elem, widthPx); }
    if (config.processedElementClass) { elem.classList.add(config.processedElementClass); }
    triggerEvent(elem, 'afterSizesUpdate', { width, sizes: widthPx });
  \<close>
\<close>

definition sizeElement_body :: "config \<Rightarrow> nat \<Rightarrow> jsval \<Rightarrow> dom \<Rightarrow> dom" where
  "sizeElement_body cfg e width d =
     (let d1 = d\<lparr>elems := (elems d)(e := (elems d e)\<lparr>autosizesWidth := width\<rparr>)\<rparr>;
          widthPx = to_string width @ ''px'';
          d2 = (if hasSizesAuto cfg (elems d1 e) then setSizesAttr cfg e widthPx d1 else d1);
          d3 = (if processedElementClass cfg \<noteq> []
                then classList_add e (processedElementClass cfg) d2 else d2)
      in triggerEvent e ''afterSizesUpdate'' (AfterDetail width widthPx) d3)"

text \<open>The only closure the program hands to \<^verbatim>\<open>rAF\<close> is
  \<^verbatim>\<open>() => fn.apply(this, args)\<close> of \<^verbatim>\<open>rAFIt\<close>, with \<^verbatim>\<open>fn\<close> the function above.\<close>

datatype act = SizeElement nat jsval

fun exec :: "config \<Rightarrow> act \<Rightarrow> dom \<Rightarrow> dom" where
  "exec cfg (SizeElement e width) d = sizeElement_body cfg e width d"

definition sizeElement :: "config \<Rightarrow> nat \<Rightarrow> jsval \<Rightarrow> (act, dom) batcher \<Rightarrow> (act, dom) batcher" where
  "sizeElement cfg e width b = rAF (exec cfg) (Act (SizeElement e width) Done) b"

text \<open>
  \<^verbatim>\<open>
  const getSizeElement = (elem, dataAttr, width) => {
    const parent = elem.parentNode;
    if (!parent) return;
    width = getWidth(elem, parent, width);
    const event = triggerEvent(elem, 'beforeSizesUpdate', { width, dataAttr: !!dataAttr });
    if (event.defaultPrevented) return;
    width = event.detail.width;
    if (width && width !== elem._autosizesWidth) {
      sizeElement(elem, parent, event, width);
    }
  };
  \<close>
\<close>

definition getSizeElement ::
  "config \<Rightarrow> listener \<Rightarrow> nat \<Rightarrow> jsval \<Rightarrow> jsval \<Rightarrow> (act, dom) batcher \<Rightarrow> (act, dom) batcher" where
  "getSizeElement cfg lsn e dataAttr width b =
     (case parentNode (elems (store b) e) of
        None \<Rightarrow> b
      | Some parent \<Rightarrow>
          (let w = getWidth cfg (elems (store b) e) (Some parent) width;
               b1 = b\<lparr>store := triggerEvent e ''beforeSizesUpdate''
                                   (BeforeDetail w (truthy dataAttr)) (store b)\<rparr>;
               event = lsn e w (truthy dataAttr)
           in if snd event then b1
              else (let w' = fst event
                    in if truthy w' \<and> strict_neq w' (autosizesWidth (elems (store b1) e))
                       then sizeElement cfg e w' b1
                       else b1)))"


section \<open>Debounced trigger\<close>

text \<open>
  \<^verbatim>\<open>
  function debounce(func) {
    let timeout;
    let timestamp;
    const wait = config.resizeDebounce;
    const run = () => { timeout = null; func(); };
    const later = () => {
      const last = Date.now() - timestamp;
      if (last < wait) {
        timeout = setTimeout(later, wait - last);
      } else {
        if (window.requestIdleCallback) { requestIdleCallback(run); } else { run(); }
      }
    };
    return () => {
      timestamp = Date.now();
      if (!timeout) { timeout = setTimeout(later, wait); }
    };
  }
  \<close>
  The state of one debounced function: the constant \<^verbatim>\<open>wait\<close> read when
  \<^verbatim>\<open>debounce\<close> is called, whether \<^verbatim>\<open>timeout\<close> holds a timer id, \<^verbatim>\<open>timestamp\<close>
  (read only after an invocation has set it), the due times of the \<^verbatim>\<open>setTimeout\<close>
  callbacks and the number of idle callbacks the platform still owes, and the times at
  which \<^verbatim>\<open>func\<close> was called. Times are milliseconds.
\<close>

record debounce_state =
  wait :: int
  timeout :: bool
  timestamp :: int
  timers :: "int list"
  idles :: nat
  executions :: "int list"

definition debounce :: "config \<Rightarrow> debounce_state" where
  "debounce cfg = \<lparr>wait = resizeDebounce cfg, timeout = False, timestamp = 0,
     timers = [], idles = 0, executions = []\<rparr>"

text \<open>\<^verbatim>\<open>timeout = setTimeout(later, delay)\<close>; the platform clamps a negative delay.\<close>

definition setTimeout :: "int \<Rightarrow> int \<Rightarrow> debounce_state \<Rightarrow> debounce_state" where
  "setTimeout now delay d = d\<lparr>timeout := True, timers := timers d @ [now + max delay 0]\<rparr>"

definition debounce_run :: "int \<Rightarrow> debounce_state \<Rightarrow> debounce_state" where
  "debounce_run now d = d\<lparr>timeout := False, executions := executions d @ [now]\<rparr>"

definition later :: "bool \<Rightarrow> int \<Rightarrow> debounce_state \<Rightarrow> debounce_state" where
  "later hasIdle now d =
     (let last = now - timestamp d
      in if last < wait d then setTimeout now (wait d - last) d
         else if hasIdle then d\<lparr>idles := idles d + 1\<rparr>
         else debounce_run now d)"

text \<open>The function that \<^verbatim>\<open>debounce\<close> returns, called at time \<open>now\<close>.\<close>

definition debounced :: "int \<Rightarrow> debounce_state \<Rightarrow> debounce_state" where
  "debounced now d =
     (let d1 = d\<lparr>timestamp := now\<rparr>
      in if \<not> timeout d1 then setTimeout now (wait d1) d1 else d1)"

text \<open>
  What the platform does, in time order: a resize notification calls the debounced
  function, a timer that is due fires, an owed idle callback runs. A step the platform
  cannot take (no timer due, no idle callback owed, time running backwards) has no result.
\<close>

datatype tick = Resize int | TimerFires int | IdleFires int

fun tick_time :: "tick \<Rightarrow> int" where
  "tick_time (Resize t) = t"
| "tick_time (TimerFires t) = t"
| "tick_time (IdleFires t) = t"

fun step :: "bool \<Rightarrow> tick \<Rightarrow> debounce_state \<Rightarrow> debounce_state option" where
  "step hasIdle (Resize t) d = Some (debounced t d)"
| "step hasIdle (TimerFires t) d =
     (case filter (\<lambda>due. due \<le> t) (timers d) of
        [] \<Rightarrow> None
      | due # _ \<Rightarrow> Some (later hasIdle t (d\<lparr>timers := remove1 due (timers d)\<rparr>)))"
| "step hasIdle (IdleFires t) d =
     (if hasIdle \<and> 0 < idles d then Some (debounce_run t (d\<lparr>idles := idles d - 1\<rparr>))
      else None)"

fun play :: "bool \<Rightarrow> int \<Rightarrow> tick list \<Rightarrow> debounce_state \<Rightarrow> debounce_state option" where
  "play hasIdle now [] d = Some d"
| "play hasIdle now (k # ks) d =
     (if tick_time k < now then None
      else (case step hasIdle k d of
              None \<Rightarrow> None
            | Some d' \<Rightarrow> play hasIdle (tick_time k) ks d'))"

section \<open>Bursts of resize notifications\<close>

text \<open>
  The platform without \<^verbatim>\<open>requestIdleCallback\<close>, left alone until time \<open>t\<close>: every
  timer due by then fires, at its due time, earliest first. A timer that fires early in
  the quiet period re-arms once, for the end of that period, and the timer armed for the
  end runs the update: the count of what pending timers can still cause goes down with
  each firing.
\<close>

definition timer_weight :: "debounce_state \<Rightarrow> int \<Rightarrow> nat" where
  "timer_weight d due = (if due - timestamp d < wait d then 2 else 1)"

function settle :: "int \<Rightarrow> debounce_state \<Rightarrow> debounce_state" where
  "settle t d =
     (case timers d of
        [] \<Rightarrow> d
      | x # xs \<Rightarrow>
          (let due = fold min xs x
           in if due \<le> t then settle t (later False due (d\<lparr>timers := remove1 due (timers d)\<rparr>))
              else d))"
  by pat_completeness auto
termination
proof (relation "measure (\<lambda>(t, d). sum_list (map (timer_weight d) (timers d)))")
  show "wf (measure (\<lambda>(t, d). sum_list (map (timer_weight d) (timers d))))" by simp
next
  fix t :: int and d :: debounce_state and x xs due
  assume tm: "timers d = x # xs" and due: "due = fold min xs x" and "due \<le> t"
  have "due = Min (set (x # xs))" unfolding due by (rule Min.set_eq_fold [symmetric])
  then have mem: "due \<in> set (timers d)" using tm Min_in [of "set (x # xs)"] by simp
  let ?d0 = "d\<lparr>timers := remove1 due (timers d)\<rparr>"
  have split: "sum_list (map (timer_weight d) (timers d))
      = timer_weight d due + sum_list (map (timer_weight d) (remove1 due (timers d)))"
    using mem by (rule sum_list_map_remove1)
  have w0: "timer_weight ?d0 = timer_weight d" by (simp add: timer_weight_def fun_eq_iff)
  have "sum_list (map (timer_weight (later False due ?d0)) (timers (later False due ?d0)))
      < sum_list (map (timer_weight d) (timers d))"
  proof (cases "due - timestamp d < wait d")
    case True
    then have l: "later False due ?d0
        = ?d0\<lparr>timeout := True, timers := remove1 due (timers d) @ [timestamp d + wait d]\<rparr>"
      by (simp add: later_def setTimeout_def Let_def max_def)
    have wl: "timer_weight (later False due ?d0) = timer_weight d"
      unfolding l by (simp add: timer_weight_def fun_eq_iff)
    have "timer_weight d (timestamp d + wait d) = 1" by (simp add: timer_weight_def)
    moreover have "timer_weight d due = 2" using True by (simp add: timer_weight_def)
    ultimately show ?thesis unfolding wl split by (simp add: l)
  next
    case False
    then have l: "later False due ?d0 = ?d0\<lparr>timeout := False, executions := executions d @ [due]\<rparr>"
      by (simp add: later_def debounce_run_def Let_def)
    have wl: "timer_weight (later False due ?d0) = timer_weight d"
      unfolding l by (simp add: timer_weight_def fun_eq_iff)
    have "timer_weight d due = 1" using False by (simp add: timer_weight_def)
    then show ?thesis unfolding wl split by (simp add: l)
  qed
  then show "((t, later False due ?d0), (t, d))
      \<in> measure (\<lambda>(t, d). sum_list (map (timer_weight d) (timers d)))"
    by simp
qed

declare settle.simps [simp del]

text \<open>A burst: resize notifications at the given times, the timers due by each
  notification firing before it.\<close>

fun burst :: "int list \<Rightarrow> debounce_state \<Rightarrow> debounce_state" where
  "burst [] d = d"
| "burst (t # ts) d = burst ts (debounced t (settle t d))"

text \<open>Notifications in time order, each less than \<open>w\<close> after the one before.\<close>

fun close_together :: "int \<Rightarrow> int list \<Rightarrow> bool" where
  "close_together w (a # b # ts) = (a \<le> b \<and> b - a < w \<and> close_together w (b # ts))"
| "close_together w ts = True"

text \<open>In the middle of a burst whose last notification came at \<open>t\<close>: one timer is
  pending, due within the quiet period, and the update has not run.\<close>

definition armed :: "int \<Rightarrow> int \<Rightarrow> debounce_state \<Rightarrow> bool" where
  "armed w t d = (wait d = w \<and> timeout d \<and> timestamp d = t \<and> executions d = []
     \<and> (case timers d of [due] \<Rightarrow> t < due \<and> due \<le> t + w | _ \<Rightarrow> False))"

section \<open>Module start-up\<close>

text \<open>
  Evaluating the module runs \<^verbatim>\<open>let config = { ...defaults }\<close> and then the body of
  the \<^verbatim>\<open>autoSizer\<close> closure, which contains
  \<^verbatim>\<open>const debouncedUpdate = debounce(updateElementsSizes)\<close>. Later, the exported
  \<^verbatim>\<open>init\<close> runs once:
  \<^verbatim>\<open>
  function init() {
    if (init.initialized) return;
    init.initialized = true;
    initConfig();
    autoSizer.init();
  }
  \<close>
  \<^verbatim>\<open>autoSizer.init\<close> registers \<^verbatim>\<open>debouncedUpdate\<close> as the resize listener and makes
  the first pass over the page (\<open>updateElementsSizes\<close> above); it does not touch the
  module's variables.
\<close>

record autosizes_module =
  module_config :: config
  debouncedUpdate :: debounce_state
  initialized :: bool

definition load_module :: autosizes_module where
  "load_module =
     \<lparr>module_config = defaults, debouncedUpdate = debounce defaults, initialized = False\<rparr>"

definition autoSizes_init :: "user_config \<Rightarrow> autosizes_module \<Rightarrow> autosizes_module" where
  "autoSizes_init u m =
     (if initialized m then m
      else m\<lparr>initialized := True, module_config := initConfig u\<rparr>)"

section \<open>The resolver in the words of the specification\<close>

text \<open>
  "Start from \<^verbatim>\<open>measuredWidth\<close> if supplied, else the element's own rendered width.
  While the current width is below \<^verbatim>\<open>minSize\<close> AND a container exists AND the element
  has no previously cached width, replace width with the container's rendered width and
  advance container to its own parent." An argument is supplied when it is not
  \<^verbatim>\<open>undefined\<close>; an element has no cached width when \<^verbatim>\<open>_autosizesWidth\<close> is
  \<^verbatim>\<open>undefined\<close>.
\<close>

fun resolve_spec_loop :: "config \<Rightarrow> element \<Rightarrow> node option \<Rightarrow> jsval \<Rightarrow> jsval" where
  "resolve_spec_loop cfg elem None width = width"
| "resolve_spec_loop cfg elem (Some (Node cw cp)) width =
     (if js_lt width (Num (minSize cfg)) \<and> autosizesWidth elem = Undefined
      then resolve_spec_loop cfg elem cp cw
      else width)"

definition resolve_spec :: "config \<Rightarrow> element \<Rightarrow> node option \<Rightarrow> jsval \<Rightarrow> jsval" where
  "resolve_spec cfg elem container measuredWidth =
     resolve_spec_loop cfg elem container
       (if measuredWidth \<noteq> Undefined then measuredWidth else offsetWidth elem)"

section \<open>Observations and scenarios\<close>

text \<open>The writes of the configured size attribute of an element, in the order they
  reached the page.\<close>

definition sizes_writes :: "config \<Rightarrow> nat \<Rightarrow> dom \<Rightarrow> effect list" where
  "sizes_writes cfg e d =
     filter (\<lambda>x. case x of SetAttribute e' name v \<Rightarrow> e' = e \<and> name = lower_case (sizesAttr cfg)
                  | _ \<Rightarrow> False) (log d)"

text \<open>All attribute writes on the page.\<close>

definition attribute_writes :: "dom \<Rightarrow> effect list" where
  "attribute_writes d = filter (\<lambda>x. case x of SetAttribute e name v \<Rightarrow> True | _ \<Rightarrow> False) (log d)"

text \<open>The events of one name dispatched on the page.\<close>

definition events_named :: "string \<Rightarrow> dom \<Rightarrow> effect list" where
  "events_named name d =
     filter (\<lambda>x. case x of DispatchEvent e n dt \<Rightarrow> n = name | _ \<Rightarrow> False) (log d)"


text \<open>The \<^verbatim>\<open>beforeSizesUpdate\<close> event that an update of \<open>e\<close> dispatches on page \<open>d\<close>.\<close>

definition before_event :: "config \<Rightarrow> nat \<Rightarrow> jsval \<Rightarrow> jsval \<Rightarrow> dom \<Rightarrow> effect" where
  "before_event cfg e dataAttr width d =
     DispatchEvent e ''beforeSizesUpdate''
       (BeforeDetail (getWidth cfg (elems d e) (parentNode (elems d e)) width) (truthy dataAttr))"

text \<open>The single-element update \<^verbatim>\<open>updateElem(elem, dataAttr, width)\<close> followed by the
  next animation frame.\<close>

definition update_and_frame ::
  "config \<Rightarrow> listener \<Rightarrow> nat \<Rightarrow> jsval \<Rightarrow> jsval \<Rightarrow> (act, dom) batcher \<Rightarrow> (act, dom) batcher" where
  "update_and_frame cfg lsn e dataAttr width b =
     frame (exec cfg) (getSizeElement cfg lsn e dataAttr width b)"






text \<open>A layout change: the platform gives element \<open>e\<close> a new rendered width.\<close>

definition relayout :: "nat \<Rightarrow> jsval \<Rightarrow> (act, dom) batcher \<Rightarrow> (act, dom) batcher" where
  "relayout e w b =
     b\<lparr>store := (store b)\<lparr>elems := (elems (store b))(e := (elems (store b) e)\<lparr>offsetWidth := w\<rparr>)\<rparr>\<rparr>"

text \<open>Listeners: none registered, one that calls \<^verbatim>\<open>preventDefault\<close>, one that stores a
  width in \<^verbatim>\<open>detail.width\<close>.\<close>

definition no_listener :: listener where
  "no_listener e w dataAttr = (w, False)"

definition veto_listener :: listener where
  "veto_listener e w dataAttr = (w, True)"

definition width_listener :: "jsval \<Rightarrow> listener" where
  "width_listener X e w dataAttr = (X, False)"

text \<open>Elements: an image of the given rendered width inside a container 1000 wide, marked
  \<^verbatim>\<open>sizes="auto"\<close> or \<^verbatim>\<open>data-sizes="auto"\<close>; a small image below a small parent and a
  wide grandparent; an image inside a container 50 wide; an image whose author wrote
  \<^verbatim>\<open>sizes="100vw"\<close>; an image that is not in the document; an image that is collapsed, as
  is its container.\<close>

definition img :: "int \<Rightarrow> element" where
  "img w = \<lparr>offsetWidth = Num w, parentNode = Some (Node (Num 1000) None),
     attributes = [''sizes'' \<mapsto> ''auto''], classList = [''autosizes''],
     autosizesWidth = Undefined\<rparr>"

definition data_img :: "int \<Rightarrow> element" where
  "data_img w = \<lparr>offsetWidth = Num w, parentNode = Some (Node (Num 1000) None),
     attributes = [''data-sizes'' \<mapsto> ''auto''], classList = [''autosizes''],
     autosizesWidth = Undefined\<rparr>"

definition small_img :: element where
  "small_img = \<lparr>offsetWidth = Num 10,
     parentNode = Some (Node (Num 5) (Some (Node (Num 300) None))),
     attributes = [''sizes'' \<mapsto> ''auto''], classList = [''autosizes''],
     autosizesWidth = Undefined\<rparr>"

definition img100 :: element where
  "img100 = \<lparr>offsetWidth = Num 100, parentNode = Some (Node (Num 50) None),
     attributes = [''sizes'' \<mapsto> ''auto''], classList = [''autosizes''],
     autosizesWidth = Undefined\<rparr>"

definition author_img :: element where
  "author_img = \<lparr>offsetWidth = Num 450, parentNode = Some (Node (Num 1000) None),
     attributes = [''sizes'' \<mapsto> ''100vw''], classList = [''autosizes''],
     autosizesWidth = Undefined\<rparr>"

definition detached_img :: element where
  "detached_img = \<lparr>offsetWidth = Num 450, parentNode = None,
     attributes = [''sizes'' \<mapsto> ''auto''], classList = [''autosizes''],
     autosizesWidth = Undefined\<rparr>"

definition collapsed_img :: element where
  "collapsed_img = \<lparr>offsetWidth = Num 0, parentNode = Some (Node (Num 0) None),
     attributes = [''sizes'' \<mapsto> ''auto''], classList = [''autosizes''],
     autosizesWidth = Undefined\<rparr>"

text \<open>A page whose tracked element is \<open>el\<close>, with nothing done to it yet.\<close>

definition page :: "element \<Rightarrow> dom" where
  "page el = \<lparr>elems = (\<lambda>_. el), log = []\<rparr>"

definition data_cfg :: config where
  "data_cfg = defaults\<lparr>sizesAttr := ''data-sizes''\<rparr>"

text \<open>A page that has been sized, and the same page after the element was laid out
  wider and updated again; with the default configuration and with
  \<^verbatim>\<open>sizesAttr: 'data-sizes'\<close>.\<close>

definition sized_page :: "(act, dom) batcher" where
  "sized_page = update_and_frame defaults no_listener 0 Undefined Undefined (idle (page (img 450)))"

definition resized_page :: "(act, dom) batcher" where
  "resized_page =
     update_and_frame defaults no_listener 0 Undefined Undefined (relayout 0 (Num 600) sized_page)"

definition data_sized_page :: "(act, dom) batcher" where
  "data_sized_page =
     update_and_frame data_cfg no_listener 0 Undefined Undefined (idle (page (data_img 320)))"

definition data_resized_page :: "(act, dom) batcher" where
  "data_resized_page =
     update_and_frame data_cfg no_listener 0 Undefined Undefined
       (relayout 0 (Num 480) data_sized_page)"



text \<open>A page that sets \<^verbatim>\<open>window.autoSizesConfig = { resizeDebounce: 500 }\<close> before it
  loads the module and initialises it.\<close>

definition slow_config :: user_config where
  "slow_config = no_overrides\<lparr>u_resizeDebounce := Some 500\<rparr>"

definition started :: autosizes_module where
  "started = autoSizes_init slow_config load_module"

section \<open>Decimal digits: properties\<close>

lemma digit_roundtrip: "d < 10 \<Longrightarrow> digit_val (digit_char d) = d"
  by (simp add: digit_val_def digit_char_def)

lemma digit_char_is_digit: "digit_char d \<in> set ''0123456789''"
  by (simp add: digit_char_def)

lemma show_nat_digits: "set (show_nat n) \<subseteq> set ''0123456789''"
proof (induction n rule: show_nat.induct)
  case (1 n)
  show ?case
  proof (cases "n < 10")
    case True
    then show ?thesis using digit_char_is_digit [of n] by (subst show_nat.simps) simp
  next
    case False
    then show ?thesis
      using 1 digit_char_is_digit [of "n mod 10"] by (subst show_nat.simps) simp
  qed
qed

lemma read_show_nat: "read_nat (show_nat n) = n"
proof (induction n rule: show_nat.induct)
  case (1 n)
  show ?case
  proof (cases "n < 10")
    case True
    then show ?thesis by (subst show_nat.simps) (simp add: read_nat_def digit_roundtrip)
  next
    case False
    then have "read_nat (show_nat (n div 10)) = n div 10" using 1 by simp
    then show ?thesis
      using False by (subst show_nat.simps) (simp add: read_nat_def digit_roundtrip)
  qed
qed

section \<open>Frame batcher: properties\<close>

lemma running_inline:
  "running b \<Longrightarrow> rAF ex f b = b\<lparr>store := fold ex (actions f) (store b)\<rparr>"
  "running b \<Longrightarrow> call ex f b = b\<lparr>store := fold ex (actions f) (store b)\<rparr>"
  by (induction ex f b and ex f b rule: rAF_call.induct) simp_all

lemma drain_running:
  "running b \<Longrightarrow>
   drain ex b = b\<lparr>queue := [], store := fold ex (concat (map actions (queue b))) (store b)\<rparr>"
proof (induction "queue b" arbitrary: b)
  case Nil
  then show ?case by (simp add: drain.simps)
next
  case (Cons f rest)
  let ?b' = "call ex f (b\<lparr>queue := rest\<rparr>)"
  have c: "?b' = b\<lparr>queue := rest, store := fold ex (actions f) (store b)\<rparr>"
    using Cons.prems by (simp add: running_inline)
  have "drain ex b = drain ex ?b'"
    using Cons.hyps(2) [symmetric] by (subst drain.simps) simp
  also have "\<dots> = ?b'\<lparr>queue := [], store := fold ex (concat (map actions (queue ?b'))) (store ?b')\<rparr>"
    using Cons.prems by (intro Cons.hyps(1)) (simp_all add: c)
  finally show ?case using Cons.hyps(2) [symmetric] by (simp add: c)
qed

lemma run_result:
  "run ex b = b\<lparr>running := False, waiting := False, queue := [],
                store := fold ex (concat (map actions (queue b))) (store b)\<rparr>"
  by (simp add: run_def drain_running)

lemma schedule_all:
  "\<not> running b \<Longrightarrow>
   fold (rAF ex) fs b =
     (if fs = [] then b
      else b\<lparr>queue := queue b @ fs, waiting := True,
             frames := (if waiting b then frames b else frames b + 1)\<rparr>)"
proof (induction fs arbitrary: b)
  case Nil
  then show ?case by simp
next
  case (Cons f fs)
  then show ?case by (cases "fs = []") (simp_all add: Let_def)
qed

text \<open>
  C7. Scheduled from a batcher on which nothing is pending, any operations \<open>fs\<close> are all
  queued in the order of scheduling, one frame callback is requested for all of them
  and the page is not touched yet; that one frame runs every operation, in that order,
  and leaves nothing pending. An operation scheduled while the batch is executing runs
  inline, at once, and is not queued.
\<close>

theorem frame_batcher_fifo:
  "queue (fold (rAF ex) fs (idle s)) = fs
   \<and> frames (fold (rAF ex) fs (idle s)) = (if fs = [] then 0 else 1)
   \<and> store (fold (rAF ex) fs (idle s)) = s
   \<and> frame ex (fold (rAF ex) fs (idle s)) = idle (fold ex (concat (map actions fs)) s)
   \<and> rAF ex f (b\<lparr>running := True\<rparr>)
       = b\<lparr>running := True, store := fold ex (actions f) (store b)\<rparr>"
proof -
  have nr: "\<not> running (idle s :: ('a, 'b) batcher)" by (simp add: idle_def)
  have sched: "fold (rAF ex) fs (idle s) =
      (if fs = [] then idle s else (idle s)\<lparr>queue := fs, waiting := True, frames := 1\<rparr>)"
    using schedule_all [OF nr, of ex fs] by (simp add: idle_def)
  have inline: "rAF ex f (b\<lparr>running := True\<rparr>)
       = b\<lparr>running := True, store := fold ex (actions f) (store b)\<rparr>"
    by (simp add: running_inline(1) del: rAF.simps)
  show ?thesis
    unfolding sched using inline by (simp add: idle_def frame_def run_result)
qed

section \<open>Width resolver: properties\<close>

lemma getWidth_zero: "getWidth cfg elem parent (Num 0) = getWidth cfg elem parent Undefined"
  by (simp add: getWidth_def js_or_def)

text \<open>
  C10. A supplied width of 0 is the same as no supplied width, for the resolver and for
  the single-element update: both start from the element's own \<^verbatim>\<open>offsetWidth\<close>.
\<close>

theorem zero_width_is_unsupplied:
  "getWidth cfg elem parent (Num 0) = getWidth cfg elem parent Undefined
   \<and> getWidth cfg elem parent (Num 0) = getWidth_loop cfg elem parent (offsetWidth elem)
   \<and> getSizeElement cfg lsn e dataAttr (Num 0) b = getSizeElement cfg lsn e dataAttr Undefined b"
  by (simp add: getSizeElement_def getWidth_zero split: option.split)
    (simp add: getWidth_def js_or_def)

lemma loops_agree:
  "autosizesWidth elem = Undefined \<or> truthy (autosizesWidth elem) \<Longrightarrow>
   getWidth_loop cfg elem p w = resolve_spec_loop cfg elem p w"
  by (induction cfg elem p w rule: getWidth_loop.induct) auto

text \<open>
  C3, as stated, fails: with a supplied width of 0, an element 100 wide and a container
  50 wide, the resolver of the specification starts from the supplied 0 and climbs to
  50, and \<open>getWidth\<close> starts from the element's 100 and stays there.
\<close>

theorem resolver_supplied_zero_counterexample:
  "getWidth defaults img100 (parentNode img100) (Num 0) = Num 100
   \<and> resolve_spec defaults img100 (parentNode img100) (Num 0) = Num 50"
  by (simp add: getWidth_def js_or_def resolve_spec_def img100_def defaults_def)

text \<open>
  C3, amended. When the supplied width is absent or a nonzero number (not 0, not NaN),
  and the element's cached width is absent or a nonzero number, \<open>getWidth\<close> is the
  resolver of the specification: it starts from the supplied width, else the element's
  rendered width, climbs while the width is below \<^verbatim>\<open>minSize\<close>, a container exists and
  the element has no cached width, and returns the last width reached. For an element
  10 wide with a parent 5 wide, a grandparent 300 wide and \<^verbatim>\<open>minSize\<close> 40 it returns
  300.
\<close>

theorem resolver_matches_spec:
  "((measuredWidth = Undefined \<or> truthy measuredWidth)
      \<and> (autosizesWidth elem = Undefined \<or> truthy (autosizesWidth elem))
     \<longrightarrow> getWidth cfg elem container measuredWidth = resolve_spec cfg elem container measuredWidth)
   \<and> getWidth defaults small_img (parentNode small_img) Undefined = Num 300"
proof -
  have ex: "getWidth defaults small_img (parentNode small_img) Undefined = Num 300"
    by (simp add: getWidth_def js_or_def small_img_def defaults_def)
  have "getWidth cfg elem container measuredWidth = resolve_spec cfg elem container measuredWidth"
    if m: "measuredWidth = Undefined \<or> truthy measuredWidth"
    and c: "autosizesWidth elem = Undefined \<or> truthy (autosizesWidth elem)"
  proof -
    have "js_or measuredWidth (offsetWidth elem)
        = (if measuredWidth \<noteq> Undefined then measuredWidth else offsetWidth elem)"
      using m by (auto simp: js_or_def)
    then show ?thesis
      by (simp add: getWidth_def resolve_spec_def loops_agree [OF c])
  qed
  with ex show ?thesis by blast
qed

theorem resolver_matches_spec_witness:
  "(Num 450 = Undefined \<or> truthy (Num 450))
   \<and> (autosizesWidth small_img = Undefined \<or> truthy (autosizesWidth small_img))
   \<and> getWidth defaults small_img (parentNode small_img) (Num 450)
       = resolve_spec defaults small_img (parentNode small_img) (Num 450)
   \<and> resolve_spec defaults small_img (parentNode small_img) (Num 450) = Num 450"
  using resolver_matches_spec [of "Num 450" small_img defaults "parentNode small_img"]
  by (simp add: small_img_def resolve_spec_def defaults_def)

section \<open>Update coordinator: properties\<close>



lemma lower_case_sizes:
  "lower_case ''sizes'' = ''sizes''" "lower_case ''data-sizes'' = ''data-sizes''"
  by (simp_all add: lower_case_def ascii_lower_def)

lemma update_skips:
  assumes "parentNode (elems (store b) e) = Some p"
    and "lsn e (getWidth cfg (elems (store b) e) (Some p) width) (truthy dataAttr) = (X, v)"
    and "v \<or> \<not> truthy X \<or> \<not> strict_neq X (autosizesWidth (elems (store b) e))"
  shows "getSizeElement cfg lsn e dataAttr width b =
           b\<lparr>store := (store b)\<lparr>log := log (store b) @ [before_event cfg e dataAttr width (store b)]\<rparr>\<rparr>"
  using assms by (auto simp: getSizeElement_def triggerEvent_def Let_def before_event_def)










lemma commit_unmarked:
  assumes "\<not> hasSizesAuto cfg (elems d e)"
  shows "attributes (elems (sizeElement_body cfg e X d) e) = attributes (elems d e)"
    and "autosizesWidth (elems (sizeElement_body cfg e X d) e) = X"
    and "sizes_writes cfg e (sizeElement_body cfg e X d) = sizes_writes cfg e d"
    and "attribute_writes (sizeElement_body cfg e X d) = attribute_writes d"
  using assms
  by (auto simp: sizeElement_body_def hasSizesAuto_def getAttribute_def setSizesAttr_def
      setAttribute_def classList_add_def triggerEvent_def sizes_writes_def attribute_writes_def
      Let_def)





text \<open>
  C4. When a listener of \<^verbatim>\<open>beforeSizesUpdate\<close> vetoes, whatever width was computed,
  the update does nothing but dispatch that event: no element changes (no attribute, no
  cached width), no attribute is written, no \<^verbatim>\<open>afterSizesUpdate\<close> is dispatched, and
  nothing is scheduled for a later frame.
\<close>

theorem veto_stops_update:
  assumes "parentNode (elems (store b) e) = Some p"
    and "snd (lsn e (getWidth cfg (elems (store b) e) (Some p) width) (truthy dataAttr))"
  shows "getSizeElement cfg lsn e dataAttr width b =
           b\<lparr>store := (store b)\<lparr>log := log (store b) @ [before_event cfg e dataAttr width (store b)]\<rparr>\<rparr>
     \<and> elems (store (getSizeElement cfg lsn e dataAttr width b)) = elems (store b)
     \<and> attribute_writes (store (getSizeElement cfg lsn e dataAttr width b)) = attribute_writes (store b)
     \<and> events_named ''afterSizesUpdate'' (store (getSizeElement cfg lsn e dataAttr width b))
         = events_named ''afterSizesUpdate'' (store b)
     \<and> queue (getSizeElement cfg lsn e dataAttr width b) = queue b
     \<and> frames (getSizeElement cfg lsn e dataAttr width b) = frames b"
proof -
  obtain X where "lsn e (getWidth cfg (elems (store b) e) (Some p) width) (truthy dataAttr) = (X, True)"
    using assms(2) by (cases "lsn e (getWidth cfg (elems (store b) e) (Some p) width) (truthy dataAttr)") auto
  then have eq: "getSizeElement cfg lsn e dataAttr width b =
           b\<lparr>store := (store b)\<lparr>log := log (store b) @ [before_event cfg e dataAttr width (store b)]\<rparr>\<rparr>"
    using assms(1) by (intro update_skips) auto
  show ?thesis
    unfolding eq by (simp add: attribute_writes_def events_named_def before_event_def)
qed

theorem veto_stops_update_witness:
  "parentNode (elems (store (idle (page (img 450)) :: (act, dom) batcher)) 0) = Some (Node (Num 1000) None)
   \<and> snd (veto_listener 0 (Num 450) False)
   \<and> store (getSizeElement defaults veto_listener 0 Undefined Undefined (idle (page (img 450))))
       = \<lparr>elems = (\<lambda>_. img 450),
          log = [DispatchEvent 0 ''beforeSizesUpdate'' (BeforeDetail (Num 450) False)]\<rparr>
   \<and> queue (getSizeElement defaults veto_listener 0 Undefined Undefined (idle (page (img 450)))) = []"
  using veto_stops_update [of "idle (page (img 450))" 0 "Node (Num 1000) None" veto_listener defaults Undefined Undefined]
  by (simp add: idle_def page_def img_def veto_listener_def before_event_def getWidth_def js_or_def defaults_def)






lemma update_on_idle:
  "update_and_frame cfg lsn e dataAttr width (idle d) =
     (case parentNode (elems d e) of
        None \<Rightarrow> idle d
      | Some p \<Rightarrow>
          (let r = getWidth cfg (elems d e) (Some p) width;
               d' = d\<lparr>log := log d @ [DispatchEvent e ''beforeSizesUpdate'' (BeforeDetail r (truthy dataAttr))]\<rparr>;
               event = lsn e r (truthy dataAttr)
           in if snd event then idle d'
              else if truthy (fst event) \<and> strict_neq (fst event) (autosizesWidth (elems d e))
                   then idle (sizeElement_body cfg e (fst event) d')
                   else idle d'))"
  by (auto simp: update_and_frame_def getSizeElement_def sizeElement_def frame_def run_result
      idle_def triggerEvent_def Let_def split: option.split)

lemma idle_store: "store (idle d) = d"
  by (simp add: idle_def)

lemma relayout_idle:
  "relayout e w (idle d) = idle (d\<lparr>elems := (elems d)(e := (elems d e)\<lparr>offsetWidth := w\<rparr>)\<rparr>)"
  by (simp add: relayout_def idle_def)

lemmas scenario_defs =
  page_def img_def data_img_def author_img_def detached_img_def collapsed_img_def small_img_def
  no_listener_def width_listener_def
  data_cfg_def defaults_def getWidth_def js_or_def sizeElement_body_def hasSizesAuto_def
  getAttribute_def setSizesAttr_def setAttribute_def hasPrefix_def getBaseAttr_def
  classList_add_def triggerEvent_def Let_def lower_case_sizes
  show_int_def show_nat.simps digit_char_def





















lemma sized_page_eval:
  "sized_page = idle \<lparr>elems = (\<lambda>_. img 450)(0 := \<lparr>offsetWidth = Num 450,
       parentNode = Some (Node (Num 1000) None), attributes = [''sizes'' \<mapsto> ''450px''],
       classList = [''autosizes'', ''autosized''], autosizesWidth = Num 450\<rparr>),
     log = [DispatchEvent 0 ''beforeSizesUpdate'' (BeforeDetail (Num 450) False),
            SetAttribute 0 ''sizes'' ''450px'', ClassListAdd 0 ''autosized'',
            DispatchEvent 0 ''afterSizesUpdate'' (AfterDetail (Num 450) ''450px'')]\<rparr>"
  by (simp add: sized_page_def update_on_idle scenario_defs)

lemma resized_page_eval:
  "resized_page = idle \<lparr>elems = (\<lambda>_. img 450)(0 := \<lparr>offsetWidth = Num 600,
       parentNode = Some (Node (Num 1000) None), attributes = [''sizes'' \<mapsto> ''450px''],
       classList = [''autosizes'', ''autosized''], autosizesWidth = Num 600\<rparr>),
     log = [DispatchEvent 0 ''beforeSizesUpdate'' (BeforeDetail (Num 450) False),
            SetAttribute 0 ''sizes'' ''450px'', ClassListAdd 0 ''autosized'',
            DispatchEvent 0 ''afterSizesUpdate'' (AfterDetail (Num 450) ''450px''),
            DispatchEvent 0 ''beforeSizesUpdate'' (BeforeDetail (Num 600) False),
            ClassListAdd 0 ''autosized'',
            DispatchEvent 0 ''afterSizesUpdate'' (AfterDetail (Num 600) ''600px'')]\<rparr>"
  unfolding resized_page_def sized_page_eval relayout_idle
  by (simp add: update_on_idle scenario_defs)

text \<open>
  C2 on the code. An image 450 wide marked \<^verbatim>\<open>sizes="auto"\<close> is sized: the attribute
  reads \<^verbatim>\<open>"450px"\<close> and the cached width is 450. The image is then laid out 600 wide
  and updated, without veto, with an event width of 600, nonzero and different from the
  cache. The attribute still reads \<^verbatim>\<open>"450px"\<close>: the size attribute has been written
  once in all, although \<^verbatim>\<open>afterSizesUpdate\<close> announces \<^verbatim>\<open>"600px"\<close>.
\<close>

theorem recommit_skips_attribute_write:
  "attributes (elems (store sized_page) 0) ''sizes'' = Some ''450px''
   \<and> autosizesWidth (elems (store sized_page) 0) = Num 450
   \<and> offsetWidth (elems (store (relayout 0 (Num 600) sized_page)) 0) = Num 600
   \<and> attributes (elems (store resized_page) 0) ''sizes'' = Some ''450px''
   \<and> sizes_writes defaults 0 (store resized_page) = [SetAttribute 0 ''sizes'' ''450px'']
   \<and> events_named ''afterSizesUpdate'' (store resized_page)
       = [DispatchEvent 0 ''afterSizesUpdate'' (AfterDetail (Num 450) ''450px''),
          DispatchEvent 0 ''afterSizesUpdate'' (AfterDetail (Num 600) ''600px'')]"
  unfolding resized_page_eval
  by (simp add: sized_page_eval relayout_idle idle_store sizes_writes_def events_named_def
      defaults_def lower_case_sizes)

lemma data_sized_page_eval:
  "data_sized_page = idle \<lparr>elems = (\<lambda>_. data_img 320)(0 := \<lparr>offsetWidth = Num 320,
       parentNode = Some (Node (Num 1000) None),
       attributes = [''data-sizes'' \<mapsto> ''320px'', ''sizes'' \<mapsto> ''320px''],
       classList = [''autosizes'', ''autosized''], autosizesWidth = Num 320\<rparr>),
     log = [DispatchEvent 0 ''beforeSizesUpdate'' (BeforeDetail (Num 320) False),
            SetAttribute 0 ''data-sizes'' ''320px'', SetAttribute 0 ''sizes'' ''320px'',
            ClassListAdd 0 ''autosized'',
            DispatchEvent 0 ''afterSizesUpdate'' (AfterDetail (Num 320) ''320px'')]\<rparr>"
  by (simp add: data_sized_page_def update_on_idle scenario_defs)

lemma data_resized_page_eval:
  "data_resized_page = idle \<lparr>elems = (\<lambda>_. data_img 320)(0 := \<lparr>offsetWidth = Num 480,
       parentNode = Some (Node (Num 1000) None),
       attributes = [''data-sizes'' \<mapsto> ''320px'', ''sizes'' \<mapsto> ''320px''],
       classList = [''autosizes'', ''autosized''], autosizesWidth = Num 480\<rparr>),
     log = [DispatchEvent 0 ''beforeSizesUpdate'' (BeforeDetail (Num 320) False),
            SetAttribute 0 ''data-sizes'' ''320px'', SetAttribute 0 ''sizes'' ''320px'',
            ClassListAdd 0 ''autosized'',
            DispatchEvent 0 ''afterSizesUpdate'' (AfterDetail (Num 320) ''320px''),
            DispatchEvent 0 ''beforeSizesUpdate'' (BeforeDetail (Num 480) False),
            ClassListAdd 0 ''autosized'',
            DispatchEvent 0 ''afterSizesUpdate'' (AfterDetail (Num 480) ''480px'')]\<rparr>"
  unfolding data_resized_page_def data_sized_page_eval relayout_idle
  by (simp add: update_on_idle scenario_defs)

text \<open>
  C1 on the code. With \<^verbatim>\<open>sizesAttr: 'data-sizes'\<close>, an image sized at 320 and then laid
  out 480 wide is updated again: the cached width changes from 320 to 480 while no
  attribute is written; but for the cached width, the element is what it was before
  the update.
\<close>

theorem cache_changes_without_write:
  "autosizesWidth (elems (store data_sized_page) 0) = Num 320
   \<and> autosizesWidth (elems (store data_resized_page) 0) = Num 480
   \<and> attribute_writes (store data_resized_page) = attribute_writes (store data_sized_page)
   \<and> elems (store data_resized_page) 0
       = (elems (store (relayout 0 (Num 480) data_sized_page)) 0)\<lparr>autosizesWidth := Num 480\<rparr>"
  unfolding data_resized_page_eval data_sized_page_eval relayout_idle
  by (simp add: idle_store attribute_writes_def)



section \<open>Debounced trigger: properties\<close>

text \<open>
  The debounced function keeps its promise for the delay it was created with: a burst
  of notifications, each less than that delay after the one before, runs the update
  once, exactly the delay after the last notification. Created by the module, the delay
  is the default 99 ms for every configuration of the page.
\<close>

lemma armed_timer:
  "armed w t d \<Longrightarrow> \<exists>due. timers d = [due] \<and> t < due \<and> due \<le> t + w"
  by (auto simp: armed_def split: list.splits)

lemma settle_armed:
  assumes "armed w t d" and "t \<le> t'" and "t' < t + w"
  shows "\<exists>due. settle t' d = d\<lparr>timers := [due]\<rparr> \<and> t' < due \<and> due \<le> t + w"
proof -
  obtain due where tm: "timers d = [due]" and lo: "t < due" and hi: "due \<le> t + w"
    using armed_timer [OF assms(1)] by blast
  have w: "wait d = w" and ts: "timestamp d = t" and to: "timeout d"
    using assms(1) by (simp_all add: armed_def)
  show ?thesis
  proof (cases "due \<le> t'")
    case False
    then have "settle t' d = d" by (subst settle.simps) (simp add: tm)
    then have "settle t' d = d\<lparr>timers := [due]\<rparr>" using tm by simp
    then show ?thesis using False hi by auto
  next
    case True
    then have lt: "due - t < w" using assms(3) by simp
    let ?d1 = "d\<lparr>timers := [t + w]\<rparr>"
    have l: "later False due (d\<lparr>timers := []\<rparr>) = ?d1"
      using lt to by (simp add: later_def setTimeout_def Let_def w ts max_def)
    have s1: "settle t' d = settle t' ?d1"
      using True by (subst settle.simps) (simp add: tm l)
    have "settle t' ?d1 = ?d1" using assms(3) by (subst settle.simps) simp
    then show ?thesis using s1 assms(3) by auto
  qed
qed

lemma burst_armed:
  "armed w t d \<Longrightarrow> close_together w (t # ts) \<Longrightarrow> armed w (last (t # ts)) (burst ts d)"
proof (induction ts arbitrary: t d)
  case Nil
  then show ?case by simp
next
  case (Cons t' ts)
  have le: "t \<le> t'" and lt: "t' < t + w" and rest: "close_together w (t' # ts)"
    using Cons.prems(2) by auto
  obtain due where s: "settle t' d = d\<lparr>timers := [due]\<rparr>" and lo: "t' < due" and hi: "due \<le> t + w"
    using settle_armed [OF Cons.prems(1) le lt] by blast
  have "armed w t' (debounced t' (settle t' d))"
    using Cons.prems(1) lo hi le unfolding s by (simp add: armed_def debounced_def Let_def)
  from Cons.IH [OF this rest] show ?case by simp
qed

lemma settle_runs:
  assumes "armed w t d" and "t + w \<le> T"
  shows "executions (settle T d) = [t + w] \<and> timers (settle T d) = [] \<and> \<not> timeout (settle T d)"
proof -
  obtain due where tm: "timers d = [due]" and lo: "t < due" and hi: "due \<le> t + w"
    using armed_timer [OF assms(1)] by blast
  have w: "wait d = w" and ts: "timestamp d = t" and to: "timeout d" and ex: "executions d = []"
    using assms(1) by (simp_all add: armed_def)
  have fire: "settle T (d\<lparr>timers := [t + w]\<rparr>)
      = d\<lparr>timers := [], timeout := False, executions := [t + w]\<rparr>"
  proof -
    have "later False (t + w) (d\<lparr>timers := []\<rparr>)
        = d\<lparr>timers := [], timeout := False, executions := [t + w]\<rparr>"
      by (simp add: later_def debounce_run_def Let_def w ts ex)
    then have "settle T (d\<lparr>timers := [t + w]\<rparr>)
        = settle T (d\<lparr>timers := [], timeout := False, executions := [t + w]\<rparr>)"
      using assms(2) by (subst settle.simps) simp
    also have "\<dots> = d\<lparr>timers := [], timeout := False, executions := [t + w]\<rparr>"
      by (subst settle.simps) simp
    finally show ?thesis .
  qed
  show ?thesis
  proof (cases "due = t + w")
    case True
    then have "d = d\<lparr>timers := [t + w]\<rparr>" using tm by simp
    then have "settle T d = d\<lparr>timers := [], timeout := False, executions := [t + w]\<rparr>"
      using fire by simp
    then show ?thesis by simp
  next
    case False
    then have lt: "due - t < w" using hi by simp
    have dT: "due \<le> T" using hi assms(2) by simp
    have l: "later False due (d\<lparr>timers := []\<rparr>) = d\<lparr>timers := [t + w]\<rparr>"
      using lt to by (simp add: later_def setTimeout_def Let_def w ts max_def)
    have "settle T d = settle T (d\<lparr>timers := [t + w]\<rparr>)"
      using dT by (subst settle.simps) (simp add: tm l)
    then show ?thesis using fire by simp
  qed
qed

lemma burst_runs_once:
  assumes "0 < resizeDebounce cfg" and "close_together (resizeDebounce cfg) (t # ts)"
    and "last (t # ts) + resizeDebounce cfg \<le> T"
  shows "executions (settle T (burst (t # ts) (debounce cfg))) = [last (t # ts) + resizeDebounce cfg]"
proof -
  have "settle t (debounce cfg) = debounce cfg"
    by (subst settle.simps) (simp add: debounce_def)
  then have "armed (resizeDebounce cfg) t (debounced t (settle t (debounce cfg)))"
    using assms(1) by (simp add: armed_def debounced_def debounce_def setTimeout_def Let_def)
  from burst_armed [OF this assms(2)]
  have "armed (resizeDebounce cfg) (last (t # ts)) (burst (t # ts) (debounce cfg))" by simp
  from settle_runs [OF this assms(3)] show ?thesis by simp
qed

lemma module_burst_runs_once:
  assumes "close_together 99 (t # ts)" and "last (t # ts) + 99 \<le> T"
  shows "executions (settle T (burst (t # ts) (debouncedUpdate (autoSizes_init u load_module))))
           = [last (t # ts) + 99]"
proof -
  have d: "debouncedUpdate (autoSizes_init u load_module) = debounce defaults"
    by (simp add: autoSizes_init_def load_module_def)
  have r: "resizeDebounce defaults = 99" by (simp add: defaults_def)
  show ?thesis
    unfolding d using burst_runs_once [of defaults t ts T] assms by (simp add: r)
qed

text \<open>Had \<^verbatim>\<open>debounce\<close> been called with the merged configuration, the burst of the
  page that configures 500 ms would run the update once, at 700 ms.\<close>

lemma debounce_with_configured_delay:
  "map_option executions
     (play False 0 [Resize 0, Resize 200, TimerFires 500, TimerFires 700]
        (debounce (module_config started))) = Some [700]"
  by (simp add: started_def slow_config_def no_overrides_def autoSizes_init_def load_module_def
      initConfig_def debounce_def defaults_def debounced_def later_def debounce_run_def
      setTimeout_def Let_def)

text \<open>
  C6 on the code. The page configures \<^verbatim>\<open>resizeDebounce: 500\<close>, and the merged
  configuration says 500, but the debounced update was created when the module was
  evaluated and waits the default 99 ms whatever the page configures. Two resize
  notifications 200 ms apart, closer together than the configured 500 ms, run the
  update pass twice, at 99 ms and at 299 ms; the first run comes before the last
  notification.
\<close>

theorem configured_delay_ignored:
  "resizeDebounce (module_config started) = 500
   \<and> wait (debouncedUpdate (autoSizes_init u load_module)) = 99
   \<and> map_option executions
        (play False 0 [Resize 0, TimerFires 99, Resize 200, TimerFires 299] (debouncedUpdate started))
       = Some [99, 299]"
  by (simp add: started_def slow_config_def no_overrides_def autoSizes_init_def load_module_def
      initConfig_def debounce_def defaults_def debounced_def later_def debounce_run_def
      setTimeout_def Let_def)


end
